theory Spec2Isabelle
  imports Complex_Main "HOL-Library.Sublist" "HOL-Library.AList" "HOL-Library.Word"
begin

section \<open>JavaScript strings\<close>

text \<open>
  A JavaScript string is a sequence of UTF-16 code units, each a 16-bit word. Source
  literals are written \<open>js ''...''\<close>; the few symbols outside ASCII that the source
  uses are written as their code units.
\<close>

type_synonym code_unit = "16 word"
type_synonym jsstring = "code_unit list"

definition js :: "string \<Rightarrow> jsstring" where
  "js s = map of_char s"

text \<open>
  The regular-expression class \<open>\s\<close> and \<open>String.prototype.trim\<close> use the same set:
  ECMAScript WhiteSpace together with LineTerminator.
\<close>

definition isLineTerminator :: "code_unit \<Rightarrow> bool" where
  "isLineTerminator c \<longleftrightarrow> c = 10 \<or> c = 13 \<or> c = 8232 \<or> c = 8233"

definition isWhiteSpace :: "code_unit \<Rightarrow> bool" where
  "isWhiteSpace c \<longleftrightarrow>
     c = 9 \<or> c = 11 \<or> c = 12 \<or> c = 32 \<or> c = 160 \<or> c = 5760 \<or>
     (8192 \<le> c \<and> c \<le> 8202) \<or> c = 8239 \<or> c = 8287 \<or> c = 12288 \<or> c = 65279"

definition isSpace :: "code_unit \<Rightarrow> bool" where
  "isSpace c \<longleftrightarrow> isWhiteSpace c \<or> isLineTerminator c"

definition isDigit :: "code_unit \<Rightarrow> bool" where
  "isDigit c \<longleftrightarrow> 48 \<le> c \<and> c \<le> 57"

definition trim :: "jsstring \<Rightarrow> jsstring" where
  "trim s = rev (dropWhile isSpace (rev (dropWhile isSpace s)))"

text \<open>
  \<open>String.prototype.toLowerCase\<close>, as far as a search for an ASCII keyword can observe
  it: the ASCII capitals are mapped to their small letters, and so are the two
  characters outside ASCII whose lower case contains an ASCII letter (U+212A KELVIN
  SIGN gives \<open>k\<close>, U+0130 gives \<open>i\<close> followed by U+0307). Every other code unit is
  left as it is; JavaScript maps it to units outside ASCII as well.
\<close>

definition lowerUnit :: "code_unit \<Rightarrow> jsstring" where
  "lowerUnit c =
     (if 65 \<le> c \<and> c \<le> 90 then [c + 32]
      else if c = 8490 then [107]
      else if c = 304 then [105, 775]
      else [c])"

definition toLowerCase :: "jsstring \<Rightarrow> jsstring" where
  "toLowerCase s = concat (map lowerUnit s)"

fun startsWith :: "jsstring \<Rightarrow> jsstring \<Rightarrow> bool" where
  "startsWith s [] = True"
| "startsWith [] (k # ks) = False"
| "startsWith (c # cs) (k # ks) = (c = k \<and> startsWith cs ks)"

text \<open>\<open>String.prototype.includes\<close>: the keyword occurs at some position.\<close>

fun includesStr :: "jsstring \<Rightarrow> jsstring \<Rightarrow> bool" where
  "includesStr [] k = startsWith [] k"
| "includesStr (c # cs) k = (startsWith (c # cs) k \<or> includesStr cs k)"

text \<open>\<open>String.prototype.split\<close> with a one-unit separator; never returns the empty array.\<close>

fun split :: "code_unit \<Rightarrow> jsstring \<Rightarrow> jsstring list" where
  "split sep [] = [[]]"
| "split sep (c # cs) =
     (if c = sep then [] # split sep cs
      else (case split sep cs of
              [] \<Rightarrow> [[c]]
            | l # ls \<Rightarrow> (c # l) # ls))"

text \<open>\<open>Array.prototype.join\<close> on strings.\<close>

fun join :: "jsstring \<Rightarrow> jsstring list \<Rightarrow> jsstring" where
  "join sep [] = []"
| "join sep [x] = x"
| "join sep (x # y # ys) = x @ sep @ join sep (y # ys)"

section \<open>Recovery Strategy Selector: model rotation\<close>

datatype LLMTask = PROGRAMMER | PLANNER | SUMMARIZER

definition modelRotation :: "LLMTask list" where
  "modelRotation = [PROGRAMMER, PLANNER, SUMMARIZER]"

definition modelIndex :: "nat \<Rightarrow> nat" where
  "modelIndex retryCount = retryCount mod length modelRotation"

definition selectRecoveryModel :: "nat \<Rightarrow> LLMTask" where
  "selectRecoveryModel retryCount = modelRotation ! modelIndex retryCount"

section \<open>Report Synthesizer\<close>

datatype risk = Critical | High | Medium | Low

definition criticalKeywords :: "jsstring list" where
  "criticalKeywords = [js ''critical'', js ''severe'', js ''high risk'', js ''vulnerability'']"

definition highKeywords :: "jsstring list" where
  "highKeywords = [js ''important'', js ''significant'', js ''security issue'']"

definition mediumKeywords :: "jsstring list" where
  "mediumKeywords = [js ''consider'', js ''recommend'', js ''improve'']"

definition someKeyword :: "jsstring list \<Rightarrow> jsstring \<Rightarrow> bool" where
  "someKeyword keywords analysisText =
     list_ex (\<lambda>keyword. includesStr (toLowerCase analysisText) keyword) keywords"

definition overallRiskOf :: "jsstring \<Rightarrow> risk" where
  "overallRiskOf analysisText =
     (if someKeyword criticalKeywords analysisText then Critical
      else if someKeyword highKeywords analysisText then High
      else if someKeyword mediumKeywords analysisText then Medium
      else Low)"

text \<open>
  The line pattern \<open>/^[\d\-\*]\s*.*recommend|^[\d\-\*]\s*.*should|^[\d\-\*]\s*.*consider/i\<close>.
  Under the \<open>i\<close> flag a pattern letter matches itself and its ASCII capital only (a
  unit outside ASCII is never folded onto an ASCII one). The dot matches every unit
  but a line terminator. Each function below is one piece of the pattern and tries
  every way of matching it, as the backtracking matcher does.
\<close>

definition isMarker :: "code_unit \<Rightarrow> bool" where
  "isMarker c \<longleftrightarrow> isDigit c \<or> c = 45 \<or> c = 42"

definition canon :: "code_unit \<Rightarrow> code_unit" where
  "canon c = (if 97 \<le> c \<and> c \<le> 122 then c - 32 else c)"

fun startsWithCI :: "jsstring \<Rightarrow> jsstring \<Rightarrow> bool" where
  "startsWithCI s [] = True"
| "startsWithCI [] (k # ks) = False"
| "startsWithCI (c # cs) (k # ks) = (canon c = canon k \<and> startsWithCI cs ks)"

fun matchDotStar :: "jsstring \<Rightarrow> jsstring \<Rightarrow> bool" where
  "matchDotStar word [] = startsWithCI [] word"
| "matchDotStar word (c # cs) =
     (startsWithCI (c # cs) word \<or> (\<not> isLineTerminator c \<and> matchDotStar word cs))"

fun matchSpaceStar :: "jsstring \<Rightarrow> jsstring \<Rightarrow> bool" where
  "matchSpaceStar word [] = matchDotStar word []"
| "matchSpaceStar word (c # cs) =
     (matchDotStar word (c # cs) \<or> (isSpace c \<and> matchSpaceStar word cs))"

fun matchAlternative :: "jsstring \<Rightarrow> jsstring \<Rightarrow> bool" where
  "matchAlternative word [] = False"
| "matchAlternative word (c # cs) = (isMarker c \<and> matchSpaceStar word cs)"

definition matchesRecommendation :: "jsstring \<Rightarrow> bool" where
  "matchesRecommendation line \<longleftrightarrow>
     matchAlternative (js ''recommend'') line \<or>
     matchAlternative (js ''should'') line \<or>
     matchAlternative (js ''consider'') line"

text \<open>\<open>line.replace(/^[\d\-\*]\s*/, '')\<close>: one marker and the white space after it.\<close>

fun stripMarker :: "jsstring \<Rightarrow> jsstring" where
  "stripMarker [] = []"
| "stripMarker (c # cs) = (if isMarker c then dropWhile isSpace cs else c # cs)"

text \<open>The loop over the lines, collecting into \<open>recommendations\<close>.\<close>

fun collectRecommendations :: "jsstring list \<Rightarrow> jsstring list \<Rightarrow> jsstring list" where
  "collectRecommendations [] recommendations = recommendations"
| "collectRecommendations (line # lines) recommendations =
     collectRecommendations lines
       (if matchesRecommendation line
        then recommendations @ [trim (stripMarker line)]
        else recommendations)"

definition extractRecommendations :: "jsstring \<Rightarrow> jsstring list" where
  "extractRecommendations analysisText =
     take 10 (collectRecommendations (split 10 analysisText) [])"

section \<open>Messages\<close>

text \<open>
  The fields of a LangChain message that the code under study reads or writes. The
  random \<open>id\<close> and \<open>tool_call_id\<close> values (fresh UUIDs) are left out. \<open>Other\<close> stands
  for every message that is neither an agent message nor a tool result. An absent
  optional field is \<open>None\<close>; an absent \<open>tool_calls\<close> array is the empty list (the
  code only asks for its length, or for its first element). A content is a string
  (\<open>Text\<close>) or an array of content blocks (\<open>Blocks\<close>), which the code only tells
  apart from a string.
\<close>

datatype role = AI | Tool | Other

datatype status = Success | Error

datatype content = Text jsstring | Blocks

datatype jsvalue = VBool bool | VNum nat | VStr jsstring

record tool_call =
  tc_name :: jsstring
  tc_args :: "(jsstring \<times> jsvalue) list"

record kwargs =
  hidden :: "bool option"
  is_diagnosis :: "bool option"
  is_smart_recovery :: "bool option"
  retry_count :: "nat option"
  model_used :: "LLMTask option"

record message =
  role :: role
  content :: content
  tool_calls :: "tool_call list"
  status :: "status option"
  name :: "jsstring option"
  additional_kwargs :: kwargs

definition noKwargs :: kwargs where
  "noKwargs = \<lparr>hidden = None, is_diagnosis = None, is_smart_recovery = None,
               retry_count = None, model_used = None\<rparr>"

definition isAIMessage :: "message \<Rightarrow> bool" where
  "isAIMessage m \<longleftrightarrow> role m = AI"

definition isToolMessage :: "message \<Rightarrow> bool" where
  "isToolMessage m \<longleftrightarrow> role m = Tool"

text \<open>The truth value of \<open>message.additional_kwargs?.is_diagnosis\<close>.\<close>

definition isDiagnosis :: "message \<Rightarrow> bool" where
  "isDiagnosis m \<longleftrightarrow> is_diagnosis (additional_kwargs m) = Some True"

text \<open>\<open>xs.slice(-n)\<close>: the last \<open>n\<close> elements, all of them when there are fewer.\<close>

definition sliceLast :: "nat \<Rightarrow> 'a list \<Rightarrow> 'a list" where
  "sliceLast n xs = drop (length xs - n) xs"

section \<open>Transcript Grouper\<close>

text \<open>
  The loop of \<open>groupToolMessagesByAIMessage\<close> with its three variables \<open>groups\<close>,
  \<open>currentGroup\<close> and \<open>processingToolsForAI\<close>; the first equation is the code after
  the loop.
\<close>

fun groupLoop ::
  "message list \<Rightarrow> message list list \<Rightarrow> message list \<Rightarrow> bool \<Rightarrow> message list list" where
  "groupLoop [] groups currentGroup processing =
     (if currentGroup \<noteq> [] then groups @ [currentGroup] else groups)"
| "groupLoop (m # ms) groups currentGroup processing =
     (if isAIMessage m then
        (if currentGroup \<noteq> [] then groupLoop ms (groups @ [currentGroup]) [] True
         else groupLoop ms groups currentGroup True)
      else if isToolMessage m \<and> processing \<and> \<not> isDiagnosis m then
        groupLoop ms groups (currentGroup @ [m]) processing
      else if \<not> isToolMessage m \<and> processing then
        (if currentGroup \<noteq> [] then groupLoop ms (groups @ [currentGroup]) [] False
         else groupLoop ms groups currentGroup False)
      else groupLoop ms groups currentGroup processing)"

definition groupToolMessagesByAIMessage :: "message list \<Rightarrow> message list list" where
  "groupToolMessagesByAIMessage messages = groupLoop messages [] [] False"

section \<open>Error rate, stuck pattern and the smart-recovery decision\<close>

text \<open>
  \<open>calculateErrorRate\<close> divides two array lengths in double precision and the callers
  compare the quotient with the literal \<open>0.8\<close>. For groups of fewer than \<open>2^50\<close>
  messages that comparison agrees with the exact one on rationals, which is what the
  model computes.
\<close>

definition calculateErrorRate :: "message list \<Rightarrow> rat" where
  "calculateErrorRate grp =
     (if length grp = 0 then 0
      else of_nat (length (filter (\<lambda>m. status m = Some Error) grp)) / of_nat (length grp))"

text \<open>\<open>next.name || "unknown_command"\<close>: an absent or empty name gives the default key.\<close>

definition commandKey :: "message \<Rightarrow> jsstring" where
  "commandKey m =
     (case name m of
        None \<Rightarrow> js ''unknown_command''
      | Some n \<Rightarrow> if n = [] then js ''unknown_command'' else n)"

text \<open>
  \<open>commandCounts\<close> is a JavaScript \<open>Map\<close>: an association list in insertion order,
  where setting a present key replaces its value in place.
\<close>

definition getCount :: "(jsstring \<times> nat) list \<Rightarrow> jsstring \<Rightarrow> nat" where
  "getCount commandCounts k = (case map_of commandCounts k of None \<Rightarrow> 0 | Some n \<Rightarrow> n)"

definition failedPair :: "message \<Rightarrow> message \<Rightarrow> bool" where
  "failedPair current next \<longleftrightarrow>
     isAIMessage current \<and> isToolMessage next \<and> status next = Some Error"

fun stuckLoop :: "message list \<Rightarrow> (jsstring \<times> nat) list \<Rightarrow> (jsstring \<times> nat) list" where
  "stuckLoop (current # next # rest) commandCounts =
     stuckLoop (next # rest)
       (if failedPair current next
        then AList.update (commandKey next) (getCount commandCounts (commandKey next) + 1)
               commandCounts
        else commandCounts)"
| "stuckLoop [m] commandCounts = commandCounts"
| "stuckLoop [] commandCounts = commandCounts"

definition checkForStuckPattern :: "message list \<Rightarrow> bool" where
  "checkForStuckPattern messages =
     list_ex (\<lambda>count. 3 \<le> count) (map snd (stuckLoop (sliceLast 10 messages) []))"

definition recentDiagnosisCount :: "message list \<Rightarrow> nat" where
  "recentDiagnosisCount messages =
     length (filter (\<lambda>msg. isToolMessage msg \<and> isDiagnosis msg) (sliceLast 20 messages))"

definition shouldUseSmartRecovery :: "message list \<Rightarrow> bool" where
  "shouldUseSmartRecovery messages =
     (let toolGroups = groupToolMessagesByAIMessage messages in
      if length toolGroups < 2 then False
      else if 2 \<le> recentDiagnosisCount messages then True
      else if 3 \<le> length toolGroups \<and>
              list_all (\<lambda>grp. 8 / 10 \<le> calculateErrorRate grp) (sliceLast 3 toolGroups)
           then True
      else checkForStuckPattern messages)"

text \<open>
  The number of adjacent pairs of a window in which an agent message is immediately
  followed by an error tool result filed under the key \<open>k\<close>: the stuck pattern in the
  words of the specification.
\<close>

fun failedPairs :: "jsstring \<Rightarrow> message list \<Rightarrow> nat" where
  "failedPairs k (current # next # rest) =
     (if failedPair current next \<and> commandKey next = k then 1 else 0)
     + failedPairs k (next # rest)"
| "failedPairs k [m] = 0"
| "failedPairs k [] = 0"

section \<open>Recovery Strategy Selector\<close>

text \<open>
  A count in a template literal: its decimal digits. The counters here are JavaScript
  numbers that only ever grow by one from zero, so they are natural numbers.
\<close>

function digitsOf :: "nat \<Rightarrow> jsstring" where
  "digitsOf n =
     (if n < 10 then [48 + of_nat n]
      else digitsOf (n div 10) @ [48 + of_nat (n mod 10)])"
  by pat_completeness auto
termination
  by (relation "measure id") auto

record ErrorPattern =
  errorType :: jsstring
  count :: nat
  lastOccurrence :: nat
  commands :: "jsstring list"

record RecoveryState =
  errorPatterns :: "(jsstring \<times> ErrorPattern) list"
  retryCount :: nat
  lastModelUsed :: LLMTask
  alternativeApproaches :: "jsstring list"

text \<open>The process-wide \<open>recoveryStates\<close> map, keyed by thread id.\<close>

type_synonym recoveryStates = "jsstring \<rightharpoonup> RecoveryState"

definition freshRecoveryState :: RecoveryState where
  "freshRecoveryState =
     \<lparr>errorPatterns = [], retryCount = 0, lastModelUsed = SUMMARIZER,
      alternativeApproaches = []\<rparr>"

text \<open>\<open>config.configurable?.thread_id || "default"\<close>.\<close>

definition threadIdOf :: "jsstring option \<Rightarrow> jsstring" where
  "threadIdOf thread_id =
     (case thread_id of
        None \<Rightarrow> js ''default''
      | Some t \<Rightarrow> if t = [] then js ''default'' else t)"

text \<open>
  The model collaborator either raises or returns a message. In \<open>smartErrorRecovery\<close>
  it is asked through the model chosen by \<open>selectRecoveryModel\<close>; the prompt texts it
  is given do not influence the control flow and are left out, so a collaborator is
  any function of the chosen model. \<open>Throws\<close> also stands for an exception raised
  while the model is loaded or the prompt is built.
\<close>

datatype llm_outcome = Throws | Returns message

datatype recovery_error = CollaboratorFailed | ToolCallMissing

record GraphUpdate =
  messages :: "message list"
  internalMessages :: "message list"

definition helpMessage :: "nat \<Rightarrow> message" where
  "helpMessage n =
     \<lparr>role = AI,
      content = Text (js ''I've attempted error recovery '' @ digitsOf n @
        js '' times but am still encountering issues. The system has hit a circuit breaker limit. I need human assistance to proceed. Please review the error patterns and provide guidance.''),
      tool_calls =
        [\<lparr>tc_name = js ''request_human_help'',
          tc_args = [(js ''help_request'',
            VStr (js ''Repeated failures after '' @ digitsOf n @
              js '' recovery attempts. Need human intervention to resolve error patterns.''))]\<rparr>],
      status = None, name = None, additional_kwargs = noKwargs\<rparr>"

definition recoveryToolMessage :: "tool_call \<Rightarrow> nat \<Rightarrow> LLMTask \<Rightarrow> message" where
  "recoveryToolMessage toolCall n recoveryModel =
     \<lparr>role = Tool,
      content = Text (js ''Smart error recovery completed. Analysis includes pattern detection, alternative approaches, and circuit breaker protection. Retry attempt '' @
        digitsOf n @ js ''/5.''),
      tool_calls = [],
      status = Some Success,
      name = Some (tc_name toolCall),
      additional_kwargs =
        \<lparr>hidden = None, is_diagnosis = Some True, is_smart_recovery = Some True,
         retry_count = Some n, model_used = Some recoveryModel\<rparr>\<rparr>"

text \<open>
  One invocation of \<open>smartErrorRecovery\<close>. The state object lives in the map and is
  mutated in place, so every write is a write to the map; the map is returned next to
  the outcome, also when the outcome is an exception (\<open>Inl\<close>).
\<close>

definition smartErrorRecovery ::
  "jsstring option \<Rightarrow> (LLMTask \<Rightarrow> llm_outcome) \<Rightarrow> recoveryStates
     \<Rightarrow> (recovery_error + GraphUpdate) \<times> recoveryStates" where
  "smartErrorRecovery thread_id llm states =
     (let threadId = threadIdOf thread_id;
          found = (case states threadId of None \<Rightarrow> freshRecoveryState | Some r \<Rightarrow> r);
          recoveryState = found\<lparr>retryCount := retryCount found + 1\<rparr>;
          states1 = states(threadId \<mapsto> recoveryState)
      in if 5 < retryCount recoveryState then
           (Inr \<lparr>messages = [helpMessage (retryCount recoveryState)],
                 internalMessages = [helpMessage (retryCount recoveryState)]\<rparr>,
            states1)
         else
           (let recoveryModel = selectRecoveryModel (retryCount recoveryState) in
            case llm recoveryModel of
              Throws \<Rightarrow> (Inl CollaboratorFailed, states1)
            | Returns response \<Rightarrow>
                (case tool_calls response of
                   [] \<Rightarrow> (Inl ToolCallMissing, states1)
                 | toolCall # _ \<Rightarrow>
                     (Inr \<lparr>messages =
                             [response,
                              recoveryToolMessage toolCall (retryCount recoveryState) recoveryModel],
                           internalMessages =
                             [response,
                              recoveryToolMessage toolCall (retryCount recoveryState) recoveryModel]\<rparr>,
                      states1(threadId \<mapsto> recoveryState\<lparr>lastModelUsed := recoveryModel\<rparr>)))))"

text \<open>The outcome is exactly what the circuit-breaker branch returns for the count \<open>n\<close>.\<close>

definition requestsHumanHelp :: "nat \<Rightarrow> recovery_error + GraphUpdate \<Rightarrow> bool" where
  "requestsHumanHelp n outcome \<longleftrightarrow>
     outcome = Inr \<lparr>messages = [helpMessage n], internalMessages = [helpMessage n]\<rparr>"

text \<open>
  A human-help outcome, said without the code's message: the invocation returns one
  message, written by the agent, that calls the tool \<open>request_human_help\<close>. (The
  diagnosis outcome returns two messages, the exception none.)
\<close>

definition isHumanHelp :: "recovery_error + GraphUpdate \<Rightarrow> bool" where
  "isHumanHelp outcome \<longleftrightarrow>
     (case outcome of
        Inl e \<Rightarrow> False
      | Inr u \<Rightarrow>
          (case messages u of
             [m] \<Rightarrow> role m = AI \<and>
                    list_ex (\<lambda>c. tc_name c = js ''request_human_help'') (tool_calls m)
           | _ \<Rightarrow> False))"

text \<open>
  A human-help request carrying the retry count \<open>n\<close>: the one returned message is the
  agent's, its text opens with the number of attempts made, and its only tool call is
  \<open>request_human_help\<close> with the single argument \<open>help_request\<close> whose text gives the
  same number.
\<close>

definition humanHelpRequest :: "nat \<Rightarrow> recovery_error + GraphUpdate \<Rightarrow> bool" where
  "humanHelpRequest n outcome \<longleftrightarrow>
     (case outcome of
        Inl e \<Rightarrow> False
      | Inr u \<Rightarrow>
          (case messages u of
             [m] \<Rightarrow>
               internalMessages u = [m] \<and> role m = AI \<and>
               (case content m of
                  Text t \<Rightarrow>
                    startsWith t
                      (js ''I've attempted error recovery '' @ digitsOf n @ js '' times '')
                | Blocks \<Rightarrow> False) \<and>
               (case tool_calls m of
                  [c] \<Rightarrow>
                    tc_name c = js ''request_human_help'' \<and>
                    tc_args c =
                      [(js ''help_request'',
                        VStr (js ''Repeated failures after '' @ digitsOf n @
                              js '' recovery attempts. Need human intervention to resolve error patterns.''))]
                | _ \<Rightarrow> False)
           | _ \<Rightarrow> False))"

text \<open>The retry count the map holds for a thread; a thread it does not know has none.\<close>

definition retryCountOf :: "recoveryStates \<Rightarrow> jsstring option \<Rightarrow> nat" where
  "retryCountOf states thread_id =
     (case states (threadIdOf thread_id) of None \<Rightarrow> 0 | Some r \<Rightarrow> retryCount r)"

text \<open>
  Successive invocations on one thread, each with the collaborator it meets; the
  outcomes are returned in order, with the map after the last one.
\<close>

fun invocations ::
  "jsstring option \<Rightarrow> (LLMTask \<Rightarrow> llm_outcome) list \<Rightarrow> recoveryStates
     \<Rightarrow> (recovery_error + GraphUpdate) list \<times> recoveryStates" where
  "invocations thread_id [] states = ([], states)"
| "invocations thread_id (llm # llms) states =
     (let (outcome, states1) = smartErrorRecovery thread_id llm states;
          (outcomes, states2) = invocations thread_id llms states1
      in (outcome # outcomes, states2))"

section \<open>Audit pipeline\<close>

text \<open>
  The report types of \<open>types.ts\<close>; the fields \<open>file\<close> and \<open>line\<close> of a vulnerability are
  written \<open>filePath\<close> and \<open>lineNumber\<close>.
\<close>

datatype severity = SevCritical | SevHigh | SevMedium | SevLow | SevInfo

record SecurityVulnerability =
  severity :: severity
  category :: jsstring
  description :: jsstring
  filePath :: jsstring
  lineNumber :: "nat option"
  recommendation :: jsstring
  cweId :: "jsstring option"

record SecurityAuditReport =
  vulnerabilities :: "SecurityVulnerability list"
  summary :: jsstring
  overallRisk :: risk
  recommendations :: "jsstring list"

text \<open>
  The fields of the graph state that the four nodes read or write. \<open>targetBranch\<close> is
  \<open>state.targetRepository.branch\<close>. A field that was never written is \<open>None\<close>
  (\<open>undefined\<close>). The pass-through fields \<open>codebaseTree\<close>, \<open>dependenciesInstalled\<close>
  and \<open>tokenData\<close> are left out.
\<close>

record SecurityAuditorGraphState =
  auditMessages :: "message list"
  targetBranch :: "jsstring option"
  baseBranchName :: "jsstring option"
  changedFiles :: "jsstring option"
  scannedFiles :: "jsstring option"
  securityReport :: "SecurityAuditReport option"

text \<open>A node's return value: \<open>None\<close> is a key the node did not return.\<close>

record SecurityAuditorGraphUpdate =
  upd_auditMessages :: "message list"
  upd_baseBranchName :: "jsstring option"
  upd_changedFiles :: "jsstring option"
  upd_scannedFiles :: "jsstring option"
  upd_securityReport :: "SecurityAuditReport option"

text \<open>
  The reducers of the state schema: \<open>auditMessages\<close> is reduced by
  \<open>messagesStateReducer\<close>, which appends the returned messages (they carry fresh ids);
  every other field is replaced by a returned value.
\<close>

definition replaceField :: "'a option \<Rightarrow> 'a option \<Rightarrow> 'a option" where
  "replaceField old new = (case new of None \<Rightarrow> old | Some v \<Rightarrow> Some v)"

definition applyUpdate ::
  "SecurityAuditorGraphState \<Rightarrow> SecurityAuditorGraphUpdate \<Rightarrow> SecurityAuditorGraphState" where
  "applyUpdate st u =
     st\<lparr>auditMessages := auditMessages st @ upd_auditMessages u,
        baseBranchName := replaceField (baseBranchName st) (upd_baseBranchName u),
        changedFiles := replaceField (changedFiles st) (upd_changedFiles u),
        scannedFiles := replaceField (scannedFiles st) (upd_scannedFiles u),
        securityReport := replaceField (securityReport st) (upd_securityReport u)\<rparr>"

text \<open>
  The collaborators of one audit run. \<open>sandboxAvailable\<close> is false when
  \<open>getSandboxWithErrorHandling\<close> raises. \<open>executeCommand\<close> is the shell executor: it
  raises, or returns an exit code and the output. \<open>scanModel\<close> answers the scan
  prompt built from the changed files and the diff, \<open>recommendModel\<close> the
  recommendation prompt built from the analysis text; the fixed prompt text around
  these arguments is left out. \<open>finalizeThrows\<close> says that an exception is raised
  inside the \<open>try\<close> block of \<open>finalizeSecurityReport\<close>.
\<close>

datatype cmd_outcome = CmdThrows | CmdResult int jsstring

record collaborators =
  sandboxAvailable :: bool
  executeCommand :: "jsstring \<Rightarrow> cmd_outcome"
  scanModel :: "jsstring \<Rightarrow> jsstring \<Rightarrow> llm_outcome"
  recommendModel :: "jsstring \<Rightarrow> llm_outcome"
  finalizeThrows :: bool

datatype audit_error = SandboxUnavailable | MissingLastMessage

definition plainAIMessage :: "content \<Rightarrow> message" where
  "plainAIMessage c =
     \<lparr>role = AI, content = c, tool_calls = [], status = None, name = None,
      additional_kwargs = noKwargs\<rparr>"

subsection \<open>Initialize\<close>

definition createSecurityAuditStartedMessage :: "message list" where
  "createSecurityAuditStartedMessage =
     [\<lparr>role = AI,
       content = Text ([55357, 56594] @ js '' Starting security audit of code changes...''),
       tool_calls = [\<lparr>tc_name = js ''security_audit_started'',
                      tc_args = [(js ''audit_started'', VBool True)]\<rparr>],
       status = None, name = None,
       additional_kwargs = noKwargs\<lparr>hidden := Some False\<rparr>\<rparr>,
      \<lparr>role = Tool,
       content = Text (js ''Security audit initialized''),
       tool_calls = [], status = None, name = None,
       additional_kwargs = noKwargs\<lparr>hidden := Some True\<rparr>\<rparr>]"

definition changedFilesCommand :: "jsstring \<Rightarrow> jsstring" where
  "changedFilesCommand base = js ''git diff '' @ base @ js '' --name-only''"

definition getChangedFiles :: "collaborators \<Rightarrow> jsstring \<Rightarrow> jsstring" where
  "getChangedFiles env base =
     (case executeCommand env (changedFilesCommand base) of
        CmdThrows \<Rightarrow> js ''Failed to get changed files.''
      | CmdResult exitCode result \<Rightarrow>
          if exitCode \<noteq> 0 then js ''Failed to get changed files.'' else trim result)"

definition getBaseBranchName :: "collaborators \<Rightarrow> jsstring" where
  "getBaseBranchName env =
     (case executeCommand env (js ''git config init.defaultBranch'') of
        CmdThrows \<Rightarrow> js ''main''
      | CmdResult exitCode result \<Rightarrow>
          if exitCode \<noteq> 0 then js ''main'' else trim result)"

text \<open>A string is falsy when it is \<open>undefined\<close> or empty.\<close>

definition falsy :: "jsstring option \<Rightarrow> bool" where
  "falsy s \<longleftrightarrow> s = None \<or> s = Some []"

text \<open>The base branch as \<open>initializeSecurityAudit\<close> settles it before it asks for the diff.\<close>

definition resolvedBaseBranch :: "collaborators \<Rightarrow> SecurityAuditorGraphState \<Rightarrow> jsstring" where
  "resolvedBaseBranch env st =
     (if falsy (targetBranch st) then getBaseBranchName env else the (targetBranch st))"

definition initializeSecurityAudit ::
  "collaborators \<Rightarrow> SecurityAuditorGraphState \<Rightarrow> audit_error + SecurityAuditorGraphUpdate" where
  "initializeSecurityAudit env st =
     (if \<not> sandboxAvailable env then Inl SandboxUnavailable
      else
        (let base = resolvedBaseBranch env st;
             files = (if base \<noteq> [] then getChangedFiles env base else [])
         in Inr \<lparr>upd_auditMessages = createSecurityAuditStartedMessage,
                 upd_baseBranchName = Some base,
                 upd_changedFiles = Some files,
                 upd_scannedFiles = Some [],
                 upd_securityReport = None\<rparr>))"

subsection \<open>Scan\<close>

text \<open>\<open>${state.baseBranchName}\<close> in a template literal.\<close>

definition interpolate :: "jsstring option \<Rightarrow> jsstring" where
  "interpolate s = (case s of None \<Rightarrow> js ''undefined'' | Some v \<Rightarrow> v)"

definition getCodeChanges :: "collaborators \<Rightarrow> SecurityAuditorGraphState \<Rightarrow> jsstring" where
  "getCodeChanges env st =
     (if \<not> sandboxAvailable env
      then js ''Failed to retrieve code changes for security analysis.''
      else
        (case executeCommand env
                (js ''git diff '' @ interpolate (baseBranchName st) @ js '' --unified=3'') of
           CmdThrows \<Rightarrow> js ''Failed to retrieve code changes for security analysis.''
         | CmdResult exitCode result \<Rightarrow>
             if exitCode \<noteq> 0
             then js ''Failed to retrieve code changes for security analysis.''
             else trim result))"

definition noChangesMessage :: message where
  "noChangesMessage =
     plainAIMessage (Text ([8505, 65039] @
       js '' No code changes detected to scan for security vulnerabilities.''))"

definition scanFailedMessage :: message where
  "scanFailedMessage =
     plainAIMessage (Text ([10060] @
       js '' Failed to complete security scan due to an error. Please review the code changes manually for potential security vulnerabilities.''))"

text \<open>
  \<open>scanCodeChanges\<close> returns its update together with the requests it handed to the
  model collaborator (the changed files and the diff of each request).
\<close>

definition scanCodeChanges ::
  "collaborators \<Rightarrow> SecurityAuditorGraphState
     \<Rightarrow> SecurityAuditorGraphUpdate \<times> (jsstring \<times> jsstring) list" where
  "scanCodeChanges env st =
     (if falsy (changedFiles st) \<or> trim (the (changedFiles st)) = [] then
        (\<lparr>upd_auditMessages = [noChangesMessage],
          upd_baseBranchName = None, upd_changedFiles = None,
          upd_scannedFiles = Some (js ''No files changed''),
          upd_securityReport = None\<rparr>, [])
      else
        (let codeChanges = getCodeChanges env st;
             request = (the (changedFiles st), codeChanges)
         in case scanModel env (the (changedFiles st)) codeChanges of
              Throws \<Rightarrow>
                (\<lparr>upd_auditMessages = [scanFailedMessage],
                  upd_baseBranchName = None, upd_changedFiles = None,
                  upd_scannedFiles = changedFiles st,
                  upd_securityReport = None\<rparr>, [request])
            | Returns response \<Rightarrow>
                (\<lparr>upd_auditMessages = [plainAIMessage (content response)],
                  upd_baseBranchName = None, upd_changedFiles = None,
                  upd_scannedFiles = changedFiles st,
                  upd_securityReport = None\<rparr>, [request])))"

subsection \<open>Routing\<close>

datatype node = GenerateSecurityRecommendations | FinalizeSecurityReport

text \<open>
  \<open>auditMessages[auditMessages.length - 1]\<close> is \<open>undefined\<close> on an empty array, and
  \<open>isAIMessage\<close> then reads a property of \<open>undefined\<close>: that read is the error
  \<open>MissingLastMessage\<close>.
\<close>

definition proceedToRecommendationsOrFinalize ::
  "SecurityAuditorGraphState \<Rightarrow> audit_error + node" where
  "proceedToRecommendationsOrFinalize st =
     (case rev (auditMessages st) of
        [] \<Rightarrow> Inl MissingLastMessage
      | lastMessage # _ \<Rightarrow>
          if isAIMessage lastMessage \<and> length (tool_calls lastMessage) \<noteq> 0
          then Inr GenerateSecurityRecommendations
          else Inr FinalizeSecurityReport)"

subsection \<open>Recommend\<close>

text \<open>
  The analysis text shared by \<open>getSecurityAnalysis\<close> and \<open>parseSecurityAnalysis\<close>: the
  non-empty string contents of the messages, joined by a blank line.
\<close>

definition stringContents :: "message list \<Rightarrow> jsstring list" where
  "stringContents msgs =
     concat (map (\<lambda>msg. case content msg of
                            Text t \<Rightarrow> (if length t > 0 then [t] else [])
                          | Blocks \<Rightarrow> []) msgs)"

definition joinedContents :: "message list \<Rightarrow> jsstring" where
  "joinedContents msgs = join [10, 10] (stringContents msgs)"

definition getSecurityAnalysis :: "SecurityAuditorGraphState \<Rightarrow> jsstring" where
  "getSecurityAnalysis st =
     (if joinedContents (auditMessages st) = [] then js ''No security analysis available''
      else joinedContents (auditMessages st))"

definition recommendFailedMessage :: message where
  "recommendFailedMessage =
     plainAIMessage (Text ([10060] @
       js '' Failed to generate security recommendations due to an error. Please manually review the security analysis and create appropriate recommendations.''))"

definition generateSecurityRecommendations ::
  "collaborators \<Rightarrow> SecurityAuditorGraphState \<Rightarrow> SecurityAuditorGraphUpdate" where
  "generateSecurityRecommendations env st =
     \<lparr>upd_auditMessages =
        (case recommendModel env (getSecurityAnalysis st) of
           Throws \<Rightarrow> [recommendFailedMessage]
         | Returns response \<Rightarrow> [plainAIMessage (content response)]),
      upd_baseBranchName = None, upd_changedFiles = None, upd_scannedFiles = None,
      upd_securityReport = None\<rparr>"

subsection \<open>Finalize\<close>

definition parseSecurityAnalysis :: "message list \<Rightarrow> SecurityAuditReport" where
  "parseSecurityAnalysis msgs =
     (let analysisText = joinedContents msgs in
      \<lparr>vulnerabilities = [],
       summary =
         (if length analysisText > 500 then take 500 analysisText @ js ''...''
          else if analysisText = []
               then js ''Security audit completed with no specific issues identified.''
               else analysisText),
       overallRisk = overallRiskOf analysisText,
       recommendations = extractRecommendations analysisText\<rparr>)"

definition riskName :: "risk \<Rightarrow> jsstring" where
  "riskName r =
     (case r of Critical \<Rightarrow> js ''critical'' | High \<Rightarrow> js ''high''
              | Medium \<Rightarrow> js ''medium'' | Low \<Rightarrow> js ''low'')"

definition riskNameUpper :: "risk \<Rightarrow> jsstring" where
  "riskNameUpper r =
     (case r of Critical \<Rightarrow> js ''CRITICAL'' | High \<Rightarrow> js ''HIGH''
              | Medium \<Rightarrow> js ''MEDIUM'' | Low \<Rightarrow> js ''LOW'')"

definition riskEmoji :: "risk \<Rightarrow> jsstring" where
  "riskEmoji r =
     (case r of Critical \<Rightarrow> [55357, 57000] | High \<Rightarrow> [9888, 65039]
              | Medium \<Rightarrow> [9889] | Low \<Rightarrow> [8505, 65039])"

text \<open>\<open>recs.map((rec, i) => `${i + 1}. ${rec}`)\<close>, from index \<open>i\<close> on.\<close>

fun numbered :: "nat \<Rightarrow> jsstring list \<Rightarrow> jsstring list" where
  "numbered i [] = []"
| "numbered i (rec # recs) = (digitsOf (i + 1) @ js ''. '' @ rec) # numbered (i + 1) recs"

definition summaryMessage :: "SecurityAuditReport \<Rightarrow> jsstring" where
  "summaryMessage report =
     trim ([10] @ riskEmoji (overallRisk report) @ js '' **Security Audit Complete**'' @
           [10, 10] @ js ''**Overall Risk Level:** '' @ riskNameUpper (overallRisk report) @
           [10] @ js ''**Vulnerabilities Found:** '' @
             digitsOf (length (vulnerabilities report)) @
           [10] @ js ''**Files Scanned:** Changed files in this session'' @
           [10, 10] @ summary report @
           [10, 10] @
           (if length (recommendations report) > 0
            then js ''**Key Recommendations:**'' @ [10] @
                 join [10] (numbered 0 (take 3 (recommendations report)))
            else []) @
           [10, 10] @
           js ''See detailed security analysis above for complete findings and recommendations.'' @
           [10] @ js ''  '')"

definition createSecurityCompletedMessage :: "SecurityAuditReport \<Rightarrow> message list" where
  "createSecurityCompletedMessage report =
     [\<lparr>role = AI,
       content = Text (summaryMessage report),
       tool_calls =
         [\<lparr>tc_name = js ''security_audit_completed'',
           tc_args = [(js ''audit_completed'', VBool True),
                      (js ''vulnerabilities_found'', VNum (length (vulnerabilities report))),
                      (js ''overall_risk'', VStr (riskName (overallRisk report)))]\<rparr>],
       status = None, name = None,
       additional_kwargs = noKwargs\<lparr>hidden := Some False\<rparr>\<rparr>,
      \<lparr>role = Tool,
       content = Text (js ''Security audit completed successfully''),
       tool_calls = [], status = None, name = None,
       additional_kwargs = noKwargs\<lparr>hidden := Some True\<rparr>\<rparr>]"

definition fallbackReport :: SecurityAuditReport where
  "fallbackReport =
     \<lparr>vulnerabilities = [],
      summary = js ''Security audit completed but report generation failed. Please review the security analysis above manually.'',
      overallRisk = Medium,
      recommendations = [js ''Manual review of security analysis is recommended'']\<rparr>"

definition finalizeFailedMessage :: message where
  "finalizeFailedMessage =
     plainAIMessage (Text ([9888, 65039] @
       js '' Security audit completed with errors. Please review the analysis above and create appropriate security measures manually.''))"

definition finalizeSecurityReport ::
  "collaborators \<Rightarrow> SecurityAuditorGraphState \<Rightarrow> SecurityAuditorGraphUpdate" where
  "finalizeSecurityReport env st =
     (if finalizeThrows env then
        \<lparr>upd_auditMessages = [finalizeFailedMessage],
         upd_baseBranchName = None, upd_changedFiles = None, upd_scannedFiles = None,
         upd_securityReport = Some fallbackReport\<rparr>
      else
        \<lparr>upd_auditMessages =
           createSecurityCompletedMessage (parseSecurityAnalysis (auditMessages st)),
         upd_baseBranchName = None, upd_changedFiles = None, upd_scannedFiles = None,
         upd_securityReport = Some (parseSecurityAnalysis (auditMessages st))\<rparr>)"

subsection \<open>The graph\<close>

text \<open>
  The compiled workflow: Initialize, Scan, the conditional edge, Recommend when the
  edge says so, Finalize. A run records the nodes it visited and the requests Scan
  handed to the model collaborator.
\<close>

datatype stage = Initialize | Scan | Recommend | Finalize

record audit_run =
  finalState :: SecurityAuditorGraphState
  visited :: "stage list"
  scanRequests :: "(jsstring \<times> jsstring) list"

definition runAudit ::
  "collaborators \<Rightarrow> SecurityAuditorGraphState \<Rightarrow> audit_error + audit_run" where
  "runAudit env st0 =
     (case initializeSecurityAudit env st0 of
        Inl e \<Rightarrow> Inl e
      | Inr u1 \<Rightarrow>
          (let st1 = applyUpdate st0 u1;
               scanned = scanCodeChanges env st1;
               st2 = applyUpdate st1 (fst scanned)
           in case proceedToRecommendationsOrFinalize st2 of
                Inl e \<Rightarrow> Inl e
              | Inr GenerateSecurityRecommendations \<Rightarrow>
                  (let st3 = applyUpdate st2 (generateSecurityRecommendations env st2) in
                   Inr \<lparr>finalState = applyUpdate st3 (finalizeSecurityReport env st3),
                        visited = [Initialize, Scan, Recommend, Finalize],
                        scanRequests = snd scanned\<rparr>)
              | Inr FinalizeSecurityReport \<Rightarrow>
                  Inr \<lparr>finalState = applyUpdate st2 (finalizeSecurityReport env st2),
                       visited = [Initialize, Scan, Finalize],
                       scanRequests = snd scanned\<rparr>))"

section \<open>Definitions used to state the properties\<close>

text \<open>
  The positions of the grouped messages: the loop of \<open>groupToolMessagesByAIMessage\<close>
  run on the position \<open>i\<close> of each message instead of the message itself.
\<close>

fun groupPositions ::
  "nat \<Rightarrow> message list \<Rightarrow> nat list list \<Rightarrow> nat list \<Rightarrow> bool \<Rightarrow> nat list list" where
  "groupPositions i [] groups currentGroup processing =
     (if currentGroup \<noteq> [] then groups @ [currentGroup] else groups)"
| "groupPositions i (m # ms) groups currentGroup processing =
     (if isAIMessage m then
        (if currentGroup \<noteq> [] then groupPositions (i + 1) ms (groups @ [currentGroup]) [] True
         else groupPositions (i + 1) ms groups currentGroup True)
      else if isToolMessage m \<and> processing \<and> \<not> isDiagnosis m then
        groupPositions (i + 1) ms groups (currentGroup @ [i]) processing
      else if \<not> isToolMessage m \<and> processing then
        (if currentGroup \<noteq> [] then groupPositions (i + 1) ms (groups @ [currentGroup]) [] False
         else groupPositions (i + 1) ms groups currentGroup False)
      else groupPositions (i + 1) ms groups currentGroup processing)"

text \<open>
  A keyword of a tier is present, case-insensitively: it occurs in the lower-cased text.
\<close>

definition keywordPresent :: "jsstring list \<Rightarrow> jsstring \<Rightarrow> bool" where
  "keywordPresent keywords analysisText \<longleftrightarrow>
     (\<exists>k \<in> set keywords. \<exists>pre post. toLowerCase analysisText = pre @ k @ post)"

text \<open>A shell command failed: it raised, or it returned a non-zero exit code.\<close>

definition commandFailed :: "cmd_outcome \<Rightarrow> bool" where
  "commandFailed r \<longleftrightarrow> (case r of CmdThrows \<Rightarrow> True | CmdResult exitCode result \<Rightarrow> exitCode \<noteq> 0)"

subsection \<open>Concrete inputs\<close>

text \<open>Transcripts: an agent turn, a tool result with its name, status and diagnosis flag.\<close>

definition toolResult :: "jsstring \<Rightarrow> status \<Rightarrow> bool \<Rightarrow> message" where
  "toolResult n s d =
     \<lparr>role = Tool, content = Text [], tool_calls = [], status = Some s, name = Some n,
      additional_kwargs = noKwargs\<lparr>is_diagnosis := (if d then Some True else None)\<rparr>\<rparr>"

definition agentMessage :: message where
  "agentMessage = plainAIMessage (Text [])"

definition userMessage :: message where
  "userMessage = \<lparr>role = Other, content = Text [], tool_calls = [], status = None, name = None,
      additional_kwargs = noKwargs\<rparr>"

definition stuckTranscript :: "message list" where
  "stuckTranscript =
     [agentMessage, toolResult (js ''shell'') Error False, toolResult (js ''view'') Success False,
      agentMessage, toolResult (js ''shell'') Error False, toolResult (js ''view'') Success False,
      agentMessage, toolResult (js ''shell'') Error False, toolResult (js ''view'') Success False]"

definition diagnosedTranscript :: "message list" where
  "diagnosedTranscript =
     [agentMessage, toolResult (js ''shell'') Success False,
      agentMessage, toolResult (js ''shell'') Success False,
      toolResult (js ''diagnose_error'') Success True,
      toolResult (js ''diagnose_error'') Success True]"

definition mixedTranscript :: "message list" where
  "mixedTranscript =
     [userMessage, toolResult (js ''a'') Success False,
      agentMessage, toolResult (js ''b'') Success False,
      toolResult (js ''diagnose_error'') Success True, toolResult (js ''c'') Error False,
      userMessage, toolResult (js ''d'') Success False,
      agentMessage, agentMessage, toolResult (js ''e'') Error False]"

text \<open>
  An audit of the branch \<open>main\<close> with no earlier audit messages, and three sets of
  collaborators: one whose shell commands all fail with exit code 128, one whose
  shell commands all succeed with empty output (no changed file), and one whose
  sandbox cannot be acquired.
\<close>

definition mainState :: SecurityAuditorGraphState where
  "mainState =
     \<lparr>auditMessages = [], targetBranch = Some (js ''main''), baseBranchName = None,
      changedFiles = None, scannedFiles = None, securityReport = None\<rparr>"

definition failingEnv :: collaborators where
  "failingEnv =
     \<lparr>sandboxAvailable = True,
      executeCommand = (\<lambda>cmd. CmdResult 128 (js ''fatal: bad revision'')),
      scanModel = (\<lambda>files diff. Throws),
      recommendModel = (\<lambda>analysis. Throws),
      finalizeThrows = False\<rparr>"


definition downEnv :: collaborators where
  "downEnv =
     \<lparr>sandboxAvailable = False,
      executeCommand = (\<lambda>cmd. CmdResult 0 []),
      scanModel = (\<lambda>files diff. Throws),
      recommendModel = (\<lambda>analysis. Throws),
      finalizeThrows = False\<rparr>"

section \<open>Properties of the string functions\<close>

lemma startsWith_iff: "startsWith s k \<longleftrightarrow> (\<exists>post. s = k @ post)"
  by (induction s k rule: startsWith.induct) auto

lemma includesStr_iff: "includesStr s k \<longleftrightarrow> (\<exists>pre post. s = pre @ k @ post)"
proof (induction s)
  case Nil
  then show ?case by (auto simp: startsWith_iff)
next
  case (Cons c cs)
  show ?case
  proof
    assume "includesStr (c # cs) k"
    then consider "startsWith (c # cs) k" | "includesStr cs k" by auto
    then show "\<exists>pre post. c # cs = pre @ k @ post"
    proof cases
      case 1
      then obtain post where "c # cs = k @ post" by (auto simp: startsWith_iff)
      then have "c # cs = [] @ k @ post" by simp
      then show ?thesis by blast
    next
      case 2
      then obtain pre post where "cs = pre @ k @ post" using Cons.IH by auto
      then have "c # cs = (c # pre) @ k @ post" by simp
      then show ?thesis by blast
    qed
  next
    assume "\<exists>pre post. c # cs = pre @ k @ post"
    then obtain pre post where e: "c # cs = pre @ k @ post" by auto
    show "includesStr (c # cs) k"
    proof (cases pre)
      case Nil
      then have "startsWith (c # cs) k" using e startsWith_iff by auto
      then show ?thesis by simp
    next
      case (Cons p ps)
      then have "cs = ps @ k @ post" using e by simp
      then show ?thesis using Cons.IH by auto
    qed
  qed
qed

section \<open>Recovery Strategy Selector: rotation and circuit breaker\<close>

text \<open>
  C1. The claim asks for the index sequence 0, 1, 2, 0 at retry counts 1, 2, 3, 4, the
  first attempt using the programmer model. The code indexes the rotation by the
  retry count itself, which is already 1 on the first attempt: the sequence it
  selects is 1, 2, 0, 1, that is planner, summarizer, programmer, planner.
\<close>

theorem rotation_first_attempts:
  "map modelIndex [1, 2, 3, 4] = [1, 2, 0, 1] \<and>
   map selectRecoveryModel [1, 2, 3, 4] = [PLANNER, SUMMARIZER, PROGRAMMER, PLANNER]"
  by (simp add: modelIndex_def selectRecoveryModel_def modelRotation_def)

lemma retryCount_step:
  "retryCountOf (snd (smartErrorRecovery tid llm states)) tid = retryCountOf states tid + 1"
  by (auto simp: smartErrorRecovery_def retryCountOf_def Let_def freshRecoveryState_def
      split: option.splits llm_outcome.splits list.splits)

lemma breaker_trips:
  "5 < retryCountOf states tid + 1 \<Longrightarrow>
   requestsHumanHelp (retryCountOf states tid + 1) (fst (smartErrorRecovery tid llm states))"
  by (auto simp: smartErrorRecovery_def retryCountOf_def Let_def freshRecoveryState_def
      requestsHumanHelp_def split: option.splits llm_outcome.splits list.splits)

lemma breaker_holds:
  "retryCountOf states tid + 1 \<le> 5 \<Longrightarrow>
   \<not> requestsHumanHelp n (fst (smartErrorRecovery tid llm states))"
  by (auto simp: smartErrorRecovery_def retryCountOf_def Let_def freshRecoveryState_def
      requestsHumanHelp_def split: option.splits llm_outcome.splits list.splits)

text \<open>
  C10. Every invocation of \<open>smartErrorRecovery\<close> leaves the thread's retry count one
  higher than it found it, whatever the collaborator does. The circuit breaker is
  decided on the incremented count, the collaborator is asked through the model
  chosen from the incremented count, and an invocation that ends in the
  missing-tool-call exception (or in an exception of the collaborator) keeps the
  increment.
\<close>

theorem retryCount_incremented_before_outcome:
  "retryCountOf (snd (smartErrorRecovery tid llm states)) tid = retryCountOf states tid + 1 \<and>
   (5 < retryCountOf states tid + 1 \<longrightarrow>
      requestsHumanHelp (retryCountOf states tid + 1)
        (fst (smartErrorRecovery tid llm states))) \<and>
   (retryCountOf states tid + 1 \<le> 5 \<and>
    llm (selectRecoveryModel (retryCountOf states tid + 1)) = Returns response \<and>
    tool_calls response = [] \<longrightarrow>
      fst (smartErrorRecovery tid llm states) = Inl ToolCallMissing) \<and>
   (retryCountOf states tid + 1 \<le> 5 \<and>
    llm (selectRecoveryModel (retryCountOf states tid + 1)) = Throws \<longrightarrow>
      fst (smartErrorRecovery tid llm states) = Inl CollaboratorFailed)"
proof -
  have a: "retryCountOf (snd (smartErrorRecovery tid llm states)) tid
             = retryCountOf states tid + 1"
    by (rule retryCount_step)
  have b: "5 < retryCountOf states tid + 1 \<longrightarrow>
      requestsHumanHelp (retryCountOf states tid + 1)
        (fst (smartErrorRecovery tid llm states))"
    using breaker_trips by blast
  have c: "retryCountOf states tid + 1 \<le> 5 \<and>
    llm (selectRecoveryModel (retryCountOf states tid + 1)) = Returns response \<and>
    tool_calls response = [] \<longrightarrow>
      fst (smartErrorRecovery tid llm states) = Inl ToolCallMissing"
    by (auto simp: smartErrorRecovery_def retryCountOf_def Let_def freshRecoveryState_def
        split: option.splits)
  have d: "retryCountOf states tid + 1 \<le> 5 \<and>
    llm (selectRecoveryModel (retryCountOf states tid + 1)) = Throws \<longrightarrow>
      fst (smartErrorRecovery tid llm states) = Inl CollaboratorFailed"
    by (auto simp: smartErrorRecovery_def retryCountOf_def Let_def freshRecoveryState_def
        split: option.splits)
  from a b c d show ?thesis by blast
qed

theorem retryCount_incremented_before_outcome_witness:
  "retryCountOf
     (snd (smartErrorRecovery None (\<lambda>task. Returns (plainAIMessage Blocks)) Map.empty))
     None = 1 \<and>
   fst (smartErrorRecovery None (\<lambda>task. Returns (plainAIMessage Blocks)) Map.empty)
     = Inl ToolCallMissing"
  using retryCount_incremented_before_outcome
          [of None "\<lambda>task. Returns (plainAIMessage Blocks)" Map.empty
              "plainAIMessage Blocks"]
  by (simp add: retryCountOf_def plainAIMessage_def)

lemma invocations_count:
  "retryCountOf (snd (invocations tid llms states)) tid = retryCountOf states tid + length llms"
proof (induction llms arbitrary: states)
  case Nil
  then show ?case by simp
next
  case (Cons llm llms)
  obtain out st1 where s: "smartErrorRecovery tid llm states = (out, st1)"
    by (cases "smartErrorRecovery tid llm states")
  have "retryCountOf st1 tid = retryCountOf states tid + 1"
    using retryCount_step[of tid llm states] s by simp
  then show ?case using Cons.IH[of st1] s by (simp add: split_beta)
qed

lemma invocations_nth:
  "i < length llms \<Longrightarrow>
   (5 < retryCountOf states tid + i + 1 \<longrightarrow>
      requestsHumanHelp (retryCountOf states tid + i + 1)
        (fst (invocations tid llms states) ! i)) \<and>
   (retryCountOf states tid + i + 1 \<le> 5 \<longrightarrow>
      \<not> requestsHumanHelp n (fst (invocations tid llms states) ! i))"
proof (induction llms arbitrary: states i)
  case Nil
  then show ?case by simp
next
  case (Cons llm llms)
  obtain out st1 where s: "smartErrorRecovery tid llm states = (out, st1)"
    by (cases "smartErrorRecovery tid llm states")
  have k: "retryCountOf st1 tid = retryCountOf states tid + 1"
    using retryCount_step[of tid llm states] s by simp
  show ?case
  proof (cases i)
    case 0
    then show ?thesis
      using breaker_trips[of states tid llm] breaker_holds[of states tid n llm] s
      by (simp add: split_beta)
  next
    case (Suc j)
    then have "j < length llms" using Cons.prems by simp
    from Cons.IH[OF this, of st1] show ?thesis using Suc s k by (simp add: split_beta)
  qed
qed

lemma humanHelpRequest_isHumanHelp: "humanHelpRequest n outcome \<Longrightarrow> isHumanHelp outcome"
  by (auto simp: humanHelpRequest_def isHumanHelp_def split: sum.splits list.splits)

lemma js_append: "js (a @ b) = js a @ js b"
  by (simp add: js_def)

lemma breaker_request:
  "5 < retryCountOf states tid + 1 \<Longrightarrow>
   humanHelpRequest (retryCountOf states tid + 1) (fst (smartErrorRecovery tid llm states))"
proof -
  assume "5 < retryCountOf states tid + 1"
  then have r: "fst (smartErrorRecovery tid llm states) =
      Inr \<lparr>messages = [helpMessage (retryCountOf states tid + 1)],
           internalMessages = [helpMessage (retryCountOf states tid + 1)]\<rparr>"
    using breaker_trips[of states tid llm] by (simp add: requestsHumanHelp_def)
  have t: "js '' times but am still encountering issues. The system has hit a circuit breaker limit. I need human assistance to proceed. Please review the error patterns and provide guidance.''
        = js '' times '' @ js ''but am still encountering issues. The system has hit a circuit breaker limit. I need human assistance to proceed. Please review the error patterns and provide guidance.''"
    by (simp add: js_def)
  show ?thesis
    unfolding r humanHelpRequest_def helpMessage_def t
    by (simp add: startsWith_iff)
qed

lemma breaker_silent:
  "retryCountOf states tid + 1 \<le> 5 \<Longrightarrow>
   \<not> isHumanHelp (fst (smartErrorRecovery tid llm states))"
  by (auto simp: smartErrorRecovery_def retryCountOf_def Let_def freshRecoveryState_def
      isHumanHelp_def split: option.splits llm_outcome.splits list.splits)

lemma invocations_nth_request:
  "i < length llms \<Longrightarrow>
   (5 < retryCountOf states tid + i + 1 \<longrightarrow>
      humanHelpRequest (retryCountOf states tid + i + 1)
        (fst (invocations tid llms states) ! i)) \<and>
   (retryCountOf states tid + i + 1 \<le> 5 \<longrightarrow>
      \<not> isHumanHelp (fst (invocations tid llms states) ! i))"
proof (induction llms arbitrary: states i)
  case Nil
  then show ?case by simp
next
  case (Cons llm llms)
  obtain out st1 where s: "smartErrorRecovery tid llm states = (out, st1)"
    by (cases "smartErrorRecovery tid llm states")
  have k: "retryCountOf st1 tid = retryCountOf states tid + 1"
    using retryCount_step[of tid llm states] s by simp
  show ?case
  proof (cases i)
    case 0
    then show ?thesis
      using breaker_request[of states tid llm] breaker_silent[of states tid llm] s
      by (simp add: split_beta)
  next
    case (Suc j)
    then have "j < length llms" using Cons.prems by simp
    from Cons.IH[OF this, of st1] show ?thesis using Suc s k by (simp add: split_beta)
  qed
qed

text \<open>
  C4. On a thread the map does not know yet, whatever the collaborator answers at
  each invocation: the first five invocations (positions 0 to 4) never give a
  human-help outcome; the sixth and every later one (positions 5 and up) give the
  human-help request, a single agent message calling \<open>request_human_help\<close>, whose
  text and argument carry the invocation's own number as the retry count; and the
  count is never reset: after all the invocations it equals their number.
\<close>

theorem circuit_breaker_from_sixth_invocation:
  "states (threadIdOf tid) = None \<Longrightarrow> i < length llms \<Longrightarrow>
   (5 \<le> i \<longrightarrow> isHumanHelp (fst (invocations tid llms states) ! i) \<and>
              humanHelpRequest (i + 1) (fst (invocations tid llms states) ! i)) \<and>
   (i < 5 \<longrightarrow> \<not> isHumanHelp (fst (invocations tid llms states) ! i)) \<and>
   retryCountOf (snd (invocations tid llms states)) tid = length llms"
proof -
  assume fresh: "states (threadIdOf tid) = None" and i: "i < length llms"
  have z: "retryCountOf states tid = 0" using fresh by (simp add: retryCountOf_def)
  show ?thesis
    using invocations_nth_request[OF i, of states tid] invocations_count[of tid llms states] z
          humanHelpRequest_isHumanHelp[of "i + 1" "fst (invocations tid llms states) ! i"]
    by auto
qed

theorem circuit_breaker_from_sixth_invocation_witness:
  "humanHelpRequest 6 (fst (invocations None (replicate 7 (\<lambda>task. Throws)) Map.empty) ! 5) \<and>
   isHumanHelp (fst (invocations None (replicate 7 (\<lambda>task. Throws)) Map.empty) ! 5) \<and>
   \<not> isHumanHelp (fst (invocations None (replicate 7 (\<lambda>task. Throws)) Map.empty) ! 4) \<and>
   retryCountOf (snd (invocations None (replicate 7 (\<lambda>task. Throws)) Map.empty)) None = 7"
  using circuit_breaker_from_sixth_invocation
          [of Map.empty None 5 "replicate 7 (\<lambda>task. Throws)"]
        circuit_breaker_from_sixth_invocation
          [of Map.empty None 4 "replicate 7 (\<lambda>task. Throws)"]
  by simp

section \<open>Report Synthesizer: recommendations and risk\<close>

lemma matched_line_has_marker:
  "matchesRecommendation line \<Longrightarrow> \<exists>c cs. line = c # cs \<and> isMarker c"
  by (cases line) (auto simp: matchesRecommendation_def)

lemma set_collectRecommendations:
  "set (collectRecommendations ls acc) =
     set acc \<union> {trim (stripMarker l) | l. l \<in> set ls \<and> matchesRecommendation l}"
  by (induction ls arbitrary: acc) auto

lemma recommendations_come_from_marked_lines:
  "r \<in> set (extractRecommendations analysisText) \<Longrightarrow>
   \<exists>c cs. c # cs \<in> set (split 10 analysisText) \<and> isMarker c \<and>
          r = trim (stripMarker (c # cs))"
proof -
  assume "r \<in> set (extractRecommendations analysisText)"
  then have "r \<in> set (collectRecommendations (split 10 analysisText) [])"
    by (auto simp: extractRecommendations_def dest: in_set_takeD)
  then obtain l where l: "l \<in> set (split 10 analysisText)" "matchesRecommendation l"
      "r = trim (stripMarker l)"
    by (auto simp: set_collectRecommendations)
  from matched_line_has_marker[OF l(2)] obtain c cs where "l = c # cs" "isMarker c" by blast
  with l show ?thesis by blast
qed

text \<open>
  C2. The claim expects the recommendation \<open>You should rotate credentials\<close> from the
  line \<open>1. You should rotate credentials\<close>. The line is captured, but the marker
  pattern removes one digit, dash or asterisk and the white space after it; the dot
  of a numbered item is neither, so the captured string begins with the dot.
\<close>

theorem numbered_marker_keeps_its_dot:
  "extractRecommendations (js ''1. You should rotate credentials'') =
     [js ''. You should rotate credentials'']"
  by code_simp

lemma someKeyword_iff: "someKeyword keywords t \<longleftrightarrow> keywordPresent keywords t"
  by (auto simp: someKeyword_def keywordPresent_def list_ex_iff includesStr_iff)

text \<open>
  C6. For every analysis text the overall risk follows the strict priority of the
  tiers: a critical-tier keyword present (in any letter case) gives \<open>Critical\<close>
  whatever else the text holds, in particular when a medium-tier keyword is present
  too; otherwise a high-tier keyword gives \<open>High\<close>; otherwise a medium-tier keyword
  gives \<open>Medium\<close>; a text with no tier keyword gives \<open>Low\<close>.
\<close>

theorem risk_by_keyword_priority:
  "(keywordPresent criticalKeywords t \<longrightarrow> overallRiskOf t = Critical) \<and>
   (\<not> keywordPresent criticalKeywords t \<and> keywordPresent highKeywords t \<longrightarrow>
      overallRiskOf t = High) \<and>
   (\<not> keywordPresent criticalKeywords t \<and> \<not> keywordPresent highKeywords t \<and>
    keywordPresent mediumKeywords t \<longrightarrow> overallRiskOf t = Medium) \<and>
   (\<not> keywordPresent criticalKeywords t \<and> \<not> keywordPresent highKeywords t \<and>
    \<not> keywordPresent mediumKeywords t \<longrightarrow> overallRiskOf t = Low)"
  by (simp add: overallRiskOf_def someKeyword_iff)

theorem risk_by_keyword_priority_witness:
  "keywordPresent criticalKeywords (js ''CRITICAL: consider rotating the key'') \<and>
   keywordPresent mediumKeywords (js ''CRITICAL: consider rotating the key'') \<and>
   overallRiskOf (js ''CRITICAL: consider rotating the key'') = Critical \<and>
   overallRiskOf (js ''All good'') = Low"
proof -
  have c: "someKeyword criticalKeywords (js ''CRITICAL: consider rotating the key'')"
    by code_simp
  have m: "someKeyword mediumKeywords (js ''CRITICAL: consider rotating the key'')"
    by code_simp
  have n: "\<not> someKeyword criticalKeywords (js ''All good'')"
          "\<not> someKeyword highKeywords (js ''All good'')"
          "\<not> someKeyword mediumKeywords (js ''All good'')"
    by code_simp+
  show ?thesis
    using risk_by_keyword_priority[of "js ''CRITICAL: consider rotating the key''"]
          risk_by_keyword_priority[of "js ''All good''"] c m n
    by (simp add: someKeyword_iff)
qed

section \<open>Audit pipeline: Initialize\<close>

lemma main_branch: "resolvedBaseBranch failingEnv mainState = js ''main''"
  by (simp add: resolvedBaseBranch_def mainState_def falsy_def js_def)

lemma initialize_failingEnv:
  "initializeSecurityAudit failingEnv mainState =
     Inr \<lparr>upd_auditMessages = createSecurityAuditStartedMessage,
          upd_baseBranchName = Some (js ''main''),
          upd_changedFiles = Some (js ''Failed to get changed files.''),
          upd_scannedFiles = Some [],
          upd_securityReport = None\<rparr>"
proof -
  have s: "sandboxAvailable failingEnv" by (simp add: failingEnv_def)
  have f: "executeCommand failingEnv cmd = CmdResult 128 (js ''fatal: bad revision'')" for cmd
    by (simp add: failingEnv_def)
  have n: "js ''main'' \<noteq> []" by (simp add: js_def)
  show ?thesis
    by (simp add: initializeSecurityAudit_def main_branch getChangedFiles_def s f n)
qed

text \<open>
  C3, as the claim states it, fails: with the base branch \<open>main\<close> and a diff command
  that exits with code 128, Initialize returns the changed-files value
  \<open>Failed to get changed files.\<close>, which is not the empty string.
\<close>

theorem retrieval_failure_not_empty_string:
  "commandFailed (executeCommand failingEnv (changedFilesCommand (js ''main''))) \<and>
   initializeSecurityAudit failingEnv mainState =
     Inr \<lparr>upd_auditMessages = createSecurityAuditStartedMessage,
          upd_baseBranchName = Some (js ''main''),
          upd_changedFiles = Some (js ''Failed to get changed files.''),
          upd_scannedFiles = Some [],
          upd_securityReport = None\<rparr> \<and>
   Some (js ''Failed to get changed files.'') \<noteq> Some []"
  using initialize_failingEnv by (simp add: commandFailed_def failingEnv_def js_def)

text \<open>
  C3, amended. Whenever the sandbox is available, a base branch name was settled and
  the command that lists the changed files fails (it raises or exits non-zero),
  Initialize returns normally and its changed-files value is the fixed string
  \<open>Failed to get changed files.\<close>: never null, and the failure is not propagated.
\<close>

theorem retrieval_failure_gives_failure_sentinel:
  "sandboxAvailable env \<Longrightarrow> resolvedBaseBranch env st \<noteq> [] \<Longrightarrow>
   commandFailed (executeCommand env (changedFilesCommand (resolvedBaseBranch env st))) \<Longrightarrow>
   \<exists>u. initializeSecurityAudit env st = Inr u \<and>
       upd_changedFiles u = Some (js ''Failed to get changed files.'')"
  by (auto simp: initializeSecurityAudit_def Let_def getChangedFiles_def commandFailed_def
      split: cmd_outcome.splits)

theorem retrieval_failure_gives_failure_sentinel_witness:
  "\<exists>u. initializeSecurityAudit failingEnv mainState = Inr u \<and>
       upd_changedFiles u = Some (js ''Failed to get changed files.'')"
proof -
  have a: "sandboxAvailable failingEnv" by (simp add: failingEnv_def)
  have b: "resolvedBaseBranch failingEnv mainState \<noteq> []" by (simp add: main_branch js_def)
  have c: "commandFailed (executeCommand failingEnv
             (changedFilesCommand (resolvedBaseBranch failingEnv mainState)))"
    by (simp add: failingEnv_def commandFailed_def)
  show ?thesis by (rule retrieval_failure_gives_failure_sentinel[OF a b c])
qed

section \<open>Transcript Grouper\<close>

lemma groupLoop_positions:
  "\<forall>j < length ms. f (i + j) = ms ! j \<Longrightarrow>
   groupLoop ms (map (map f) iss) (map f ic) p = map (map f) (groupPositions i ms iss ic p)"
proof (induction ms arbitrary: i iss ic p)
  case Nil
  then show ?case by simp
next
  case (Cons m ms)
  have m: "f i = m" using Cons.prems by force
  have rest: "\<forall>j < length ms. f ((i + 1) + j) = ms ! j"
    using Cons.prems by force
  note ih = Cons.IH[OF rest]
  show ?case
    using ih[of "iss @ [ic]" "[]" True] ih[of iss ic True] ih[of iss "ic @ [i]" p]
          ih[of "iss @ [ic]" "[]" False] ih[of iss ic False] ih[of iss ic p] m
    by auto
qed

lemma groupPositions_sorted:
  "sorted_wrt (<) (concat iss @ ic) \<Longrightarrow> \<forall>k \<in> set (concat iss @ ic). k < i \<Longrightarrow>
   sorted_wrt (<) (concat (groupPositions i ms iss ic p))"
proof (induction ms arbitrary: i iss ic p)
  case Nil
  then show ?case by (auto simp: sorted_wrt_append)
next
  case (Cons m ms)
  have b: "\<forall>k \<in> set (concat iss @ ic). k < i + 1" using Cons.prems(2) by fastforce
  have s1: "sorted_wrt (<) (concat (iss @ [ic]) @ [])" using Cons.prems(1) by simp
  have b1: "\<forall>k \<in> set (concat (iss @ [ic]) @ []). k < i + 1" using b by simp
  have s2: "sorted_wrt (<) (concat iss @ (ic @ [i]))"
    using Cons.prems by (auto simp: sorted_wrt_append)
  have b2: "\<forall>k \<in> set (concat iss @ (ic @ [i])). k < i + 1" using b by auto
  show ?case
    using Cons.IH[OF s1 b1] Cons.IH[OF Cons.prems(1) b] Cons.IH[OF s2 b2]
    by auto
qed

lemma groupPositions_range:
  "\<forall>k \<in> set (concat iss @ ic). P k \<Longrightarrow>
   \<forall>j < length ms. isToolMessage (ms ! j) \<and> \<not> isDiagnosis (ms ! j) \<longrightarrow> P (i + j) \<Longrightarrow>
   \<forall>k \<in> set (concat (groupPositions i ms iss ic p)). P k"
proof (induction ms arbitrary: i iss ic p)
  case Nil
  then show ?case by auto
next
  case (Cons m ms)
  have rest: "\<forall>j < length ms. isToolMessage (ms ! j) \<and> \<not> isDiagnosis (ms ! j) \<longrightarrow> P ((i + 1) + j)"
    using Cons.prems(2) by force
  have hd: "isToolMessage m \<and> \<not> isDiagnosis m \<longrightarrow> P i"
    using Cons.prems(2) by force
  have a1: "\<forall>k \<in> set (concat (iss @ [ic]) @ []). P k" using Cons.prems(1) by auto
  have a2: "isToolMessage m \<and> \<not> isDiagnosis m \<Longrightarrow> \<forall>k \<in> set (concat iss @ (ic @ [i])). P k"
    using Cons.prems(1) hd by auto
  show ?case
    using Cons.IH[OF a1 rest] Cons.IH[OF Cons.prems(1) rest] Cons.IH[OF a2 rest]
    by auto
qed

lemma groupPositions_nonempty:
  "\<forall>g \<in> set iss. g \<noteq> [] \<Longrightarrow> \<forall>g \<in> set (groupPositions i ms iss ic p). g \<noteq> []"
proof (induction ms arbitrary: i iss ic p)
  case Nil
  then show ?case by auto
next
  case (Cons m ms)
  have a: "ic \<noteq> [] \<Longrightarrow> \<forall>g \<in> set (iss @ [ic]). g \<noteq> []"
    using Cons.prems by auto
  show ?case using Cons.IH[OF Cons.prems] Cons.IH[OF a] by auto
qed

lemma groupLoop_subseq:
  "subseq (concat (groupLoop ms groups cur p)) (concat groups @ cur @ filter isToolMessage ms)"
proof (induction ms arbitrary: groups cur p)
  case Nil
  then show ?case by simp
next
  case (Cons m ms)
  have skip: "subseq (concat (groupLoop ms g c q)) (concat g @ c @ m # filter isToolMessage ms)"
    for g c q
  proof -
    have "subseq (concat g @ c @ filter isToolMessage ms) (concat g @ c @ m # filter isToolMessage ms)"
      by (simp add: subseq_append' list_emb_Cons)
    then show ?thesis using Cons.IH[of g c q] subseq_order.order_trans by blast
  qed
  have ai: "isAIMessage m \<Longrightarrow> \<not> isToolMessage m"
    by (simp add: isAIMessage_def isToolMessage_def)
  show ?case
    using Cons.IH[of "groups @ [cur]" "[]" True] Cons.IH[of groups cur True]
          Cons.IH[of groups "cur @ [m]" p]
          Cons.IH[of "groups @ [cur]" "[]" False] Cons.IH[of groups cur False]
          Cons.IH[of groups cur p] skip[of groups cur p] ai
    by auto
qed

lemma mixedTranscript_groups:
  "groupToolMessagesByAIMessage mixedTranscript =
     [[toolResult (js ''b'') Success False, toolResult (js ''c'') Error False],
      [toolResult (js ''e'') Error False]]"
  by code_simp

text \<open>
  C8. For every transcript the groups are the messages at lists of positions of the
  transcript such that: no list is empty; the lists, read one after the other, are
  strictly increasing (so no position is in two groups, and the order of the
  transcript is kept within and across the groups); every position holds a tool
  result that is not flagged as a diagnosis. The concatenation of the groups is a
  subsequence of the transcript's tool results.
\<close>

theorem grouper_groups_are_ordered_disjoint_tool_results:
  "subseq (concat (groupToolMessagesByAIMessage msgs)) (filter isToolMessage msgs) \<and>
   (\<exists>iss. groupToolMessagesByAIMessage msgs = map (map ((!) msgs)) iss \<and>
          (\<forall>g \<in> set iss. g \<noteq> []) \<and>
          sorted_wrt (<) (concat iss) \<and>
          (\<forall>k \<in> set (concat iss).
             k < length msgs \<and> isToolMessage (msgs ! k) \<and> \<not> isDiagnosis (msgs ! k)))"
proof -
  let ?iss = "groupPositions 0 msgs [] [] False"
  have "groupLoop msgs (map (map ((!) msgs)) []) (map ((!) msgs) []) False
          = map (map ((!) msgs)) ?iss"
    by (rule groupLoop_positions) simp
  then have 1: "groupToolMessagesByAIMessage msgs = map (map ((!) msgs)) ?iss"
    by (simp add: groupToolMessagesByAIMessage_def)
  have 2: "\<forall>g \<in> set ?iss. g \<noteq> []" by (rule groupPositions_nonempty) simp
  have 3: "sorted_wrt (<) (concat ?iss)" by (rule groupPositions_sorted) simp_all
  have 4: "\<forall>k \<in> set (concat ?iss).
            k < length msgs \<and> isToolMessage (msgs ! k) \<and> \<not> isDiagnosis (msgs ! k)"
    by (rule groupPositions_range) simp_all
  have 5: "subseq (concat (groupToolMessagesByAIMessage msgs)) (filter isToolMessage msgs)"
    using groupLoop_subseq[of msgs "[]" "[]" False]
    by (simp add: groupToolMessagesByAIMessage_def)
  from 1 2 3 4 5 show ?thesis by blast
qed

theorem grouper_groups_are_ordered_disjoint_tool_results_witness:
  "groupToolMessagesByAIMessage mixedTranscript =
     [[toolResult (js ''b'') Success False, toolResult (js ''c'') Error False],
      [toolResult (js ''e'') Error False]] \<and>
   subseq (concat (groupToolMessagesByAIMessage mixedTranscript))
     (filter isToolMessage mixedTranscript) \<and>
   (\<exists>iss. groupToolMessagesByAIMessage mixedTranscript = map (map ((!) mixedTranscript)) iss \<and>
          sorted_wrt (<) (concat iss))"
  using grouper_groups_are_ordered_disjoint_tool_results[of mixedTranscript]
        mixedTranscript_groups
  by blast

section \<open>Escalation: the smart-recovery decision\<close>

lemma getCount_update:
  "getCount (AList.update k v al) k' = (if k' = k then v else getCount al k')"
  by (simp add: getCount_def update_conv')

lemma getCount_stuckLoop:
  "getCount (stuckLoop w counts) k = getCount counts k + failedPairs k w"
  by (induction w counts rule: stuckLoop.induct) (auto simp: getCount_update)

lemma distinct_stuckLoop:
  "distinct (map fst counts) \<Longrightarrow> distinct (map fst (stuckLoop w counts))"
  by (induction w counts rule: stuckLoop.induct) (auto simp: distinct_update)

lemma checkForStuckPattern_iff:
  "checkForStuckPattern msgs \<longleftrightarrow> (\<exists>k. 3 \<le> failedPairs k (sliceLast 10 msgs))"
proof -
  let ?al = "stuckLoop (sliceLast 10 msgs) []"
  have d: "distinct (map fst ?al)" by (rule distinct_stuckLoop) simp
  have g: "getCount ?al k = failedPairs k (sliceLast 10 msgs)" for k
    using getCount_stuckLoop[of "sliceLast 10 msgs" "[]" k] by (simp add: getCount_def)
  show ?thesis
  proof
    assume "checkForStuckPattern msgs"
    then obtain k v where kv: "(k, v) \<in> set ?al" "3 \<le> v"
      by (auto simp: checkForStuckPattern_def list_ex_iff)
    then have "map_of ?al k = Some v" using d by simp
    then have "getCount ?al k = v" by (simp add: getCount_def)
    then show "\<exists>k. 3 \<le> failedPairs k (sliceLast 10 msgs)" using g kv by auto
  next
    assume "\<exists>k. 3 \<le> failedPairs k (sliceLast 10 msgs)"
    then obtain k where k: "3 \<le> getCount ?al k" using g by auto
    then obtain v where v: "map_of ?al k = Some v" "3 \<le> v"
      by (cases "map_of ?al k") (auto simp: getCount_def)
    then have "(k, v) \<in> set ?al" by (simp add: map_of_SomeD)
    then show "checkForStuckPattern msgs"
      using v by (force simp: checkForStuckPattern_def list_ex_iff)
  qed
qed

text \<open>
  C7. For every message list that forms at least two tool-invocation groups,
  \<open>shouldUseSmartRecovery\<close> is true when at least two diagnosis-flagged tool results
  are among the last 20 messages, and also when some key is the name of the error
  tool result in at least three agent-message-then-error-tool-result pairs among the
  last 10 messages. No condition on error rates is needed.
\<close>

theorem smart_recovery_forced_by_diagnoses_or_stuck:
  "2 \<le> length (groupToolMessagesByAIMessage msgs) \<Longrightarrow>
   2 \<le> recentDiagnosisCount msgs \<or> (\<exists>k. 3 \<le> failedPairs k (sliceLast 10 msgs)) \<Longrightarrow>
   shouldUseSmartRecovery msgs"
  using checkForStuckPattern_iff[of msgs]
  by (auto simp: shouldUseSmartRecovery_def Let_def)

lemma stuckTranscript_facts:
  "length (groupToolMessagesByAIMessage stuckTranscript) = 3"
  "failedPairs (js ''shell'') (sliceLast 10 stuckTranscript) = 3"
  "map calculateErrorRate (groupToolMessagesByAIMessage stuckTranscript) = [1 / 2, 1 / 2, 1 / 2]"
  by code_simp+

lemma diagnosedTranscript_facts:
  "length (groupToolMessagesByAIMessage diagnosedTranscript) = 2"
  "recentDiagnosisCount diagnosedTranscript = 2"
  "map calculateErrorRate (groupToolMessagesByAIMessage diagnosedTranscript) = [0, 0]"
  by code_simp+

theorem smart_recovery_forced_by_diagnoses_or_stuck_witness:
  "map calculateErrorRate (groupToolMessagesByAIMessage stuckTranscript) = [1 / 2, 1 / 2, 1 / 2] \<and>
   shouldUseSmartRecovery stuckTranscript \<and>
   map calculateErrorRate (groupToolMessagesByAIMessage diagnosedTranscript) = [0, 0] \<and>
   shouldUseSmartRecovery diagnosedTranscript"
proof -
  have s: "\<exists>k. 3 \<le> failedPairs k (sliceLast 10 stuckTranscript)"
    using stuckTranscript_facts(2) by (intro exI[of _ "js ''shell''"]) simp
  have 1: "shouldUseSmartRecovery stuckTranscript"
    using smart_recovery_forced_by_diagnoses_or_stuck[of stuckTranscript] s
          stuckTranscript_facts(1)
    by simp
  have 2: "shouldUseSmartRecovery diagnosedTranscript"
    using smart_recovery_forced_by_diagnoses_or_stuck[of diagnosedTranscript]
          diagnosedTranscript_facts(1,2)
    by simp
  from 1 2 stuckTranscript_facts(3) diagnosedTranscript_facts(3) show ?thesis by blast
qed

section \<open>Audit pipeline: the stages and the route\<close>

lemma scan_appends_one_plain_message:
  "\<exists>c. upd_auditMessages (fst (scanCodeChanges env st)) = [plainAIMessage c]"
  by (auto simp: scanCodeChanges_def Let_def noChangesMessage_def scanFailedMessage_def
      split: llm_outcome.splits)

lemma route_after_plain_message:
  "auditMessages st = ms @ [plainAIMessage c] \<Longrightarrow>
   proceedToRecommendationsOrFinalize st = Inr FinalizeSecurityReport"
  by (simp add: proceedToRecommendationsOrFinalize_def plainAIMessage_def)

lemma route_after_scan:
  "proceedToRecommendationsOrFinalize (applyUpdate st (fst (scanCodeChanges env st)))
     = Inr FinalizeSecurityReport"
proof -
  obtain c where "upd_auditMessages (fst (scanCodeChanges env st)) = [plainAIMessage c]"
    using scan_appends_one_plain_message by blast
  then have "auditMessages (applyUpdate st (fst (scanCodeChanges env st)))
               = auditMessages st @ [plainAIMessage c]"
    by (simp add: applyUpdate_def)
  then show ?thesis by (rule route_after_plain_message)
qed

lemma runAudit_shape:
  "initializeSecurityAudit env st = Inr u \<Longrightarrow>
   runAudit env st =
     Inr \<lparr>finalState =
            applyUpdate (applyUpdate (applyUpdate st u) (fst (scanCodeChanges env (applyUpdate st u))))
              (finalizeSecurityReport env
                 (applyUpdate (applyUpdate st u) (fst (scanCodeChanges env (applyUpdate st u))))),
          visited = [Initialize, Scan, Finalize],
          scanRequests = snd (scanCodeChanges env (applyUpdate st u))\<rparr>"
  by (simp add: runAudit_def Let_def route_after_scan)

text \<open>
  C9, as the claim states it, fails for Initialize: when the sandbox cannot be
  acquired, Initialize raises, so it returns no update and appends no audit message,
  and the run ends there.
\<close>

theorem sandbox_failure_appends_nothing:
  "initializeSecurityAudit downEnv mainState = Inl SandboxUnavailable \<and>
   runAudit downEnv mainState = Inl SandboxUnavailable"
  by (simp add: initializeSecurityAudit_def runAudit_def downEnv_def)

text \<open>
  C9, amended. Scan, Recommend and Finalize return at least one audit message on
  every path. Initialize returns, with the audit-started pair, exactly when the
  sandbox is acquired (also when its branch or diff commands fail); otherwise it
  raises and the run ends before Scan. So the state the routing function sees after
  Scan has a non-empty message list, the routing function never reads a missing last
  element, and no run of the graph ends in that error.
\<close>

theorem every_stage_appends_a_message:
  "(sandboxAvailable env \<longrightarrow>
      (\<exists>u'. initializeSecurityAudit env st = Inr u' \<and>
            upd_auditMessages u' = createSecurityAuditStartedMessage)) \<and>
   (\<not> sandboxAvailable env \<longrightarrow>
      initializeSecurityAudit env st = Inl SandboxUnavailable \<and>
      runAudit env st = Inl SandboxUnavailable) \<and>
   (initializeSecurityAudit env st = Inr u \<longrightarrow>
      upd_auditMessages u \<noteq> [] \<and>
      auditMessages (applyUpdate (applyUpdate st u)
                       (fst (scanCodeChanges env (applyUpdate st u)))) \<noteq> [] \<and>
      proceedToRecommendationsOrFinalize
        (applyUpdate (applyUpdate st u) (fst (scanCodeChanges env (applyUpdate st u))))
        \<noteq> Inl MissingLastMessage) \<and>
   upd_auditMessages (fst (scanCodeChanges env st)) \<noteq> [] \<and>
   upd_auditMessages (generateSecurityRecommendations env st) \<noteq> [] \<and>
   upd_auditMessages (finalizeSecurityReport env st) \<noteq> [] \<and>
   runAudit env st \<noteq> Inl MissingLastMessage"
proof -
  have scan: "upd_auditMessages (fst (scanCodeChanges env s)) \<noteq> []" for s
    using scan_appends_one_plain_message[of env s] by auto
  have init: "initializeSecurityAudit env st = Inr u \<longrightarrow> upd_auditMessages u \<noteq> []"
    by (auto simp: initializeSecurityAudit_def Let_def createSecurityAuditStartedMessage_def
        split: if_splits)
  have after: "auditMessages (applyUpdate (applyUpdate st u)
                 (fst (scanCodeChanges env (applyUpdate st u)))) \<noteq> []"
    using scan[of "applyUpdate st u"] by (simp add: applyUpdate_def)
  have route: "proceedToRecommendationsOrFinalize
        (applyUpdate (applyUpdate st u) (fst (scanCodeChanges env (applyUpdate st u))))
        \<noteq> Inl MissingLastMessage"
    by (simp add: route_after_scan)
  have rec: "upd_auditMessages (generateSecurityRecommendations env st) \<noteq> []"
    by (simp add: generateSecurityRecommendations_def split: llm_outcome.splits)
  have fin: "upd_auditMessages (finalizeSecurityReport env st) \<noteq> []"
    by (simp add: finalizeSecurityReport_def createSecurityCompletedMessage_def)
  have run: "runAudit env st \<noteq> Inl MissingLastMessage"
  proof (cases "initializeSecurityAudit env st")
    case (Inl e)
    then have "e = SandboxUnavailable"
      by (auto simp: initializeSecurityAudit_def Let_def split: if_splits)
    then show ?thesis using Inl by (simp add: runAudit_def)
  next
    case (Inr u')
    then show ?thesis by (simp add: runAudit_shape)
  qed
  have up: "sandboxAvailable env \<longrightarrow>
      (\<exists>u'. initializeSecurityAudit env st = Inr u' \<and>
            upd_auditMessages u' = createSecurityAuditStartedMessage)"
    by (simp add: initializeSecurityAudit_def Let_def)
  have down: "\<not> sandboxAvailable env \<longrightarrow>
      initializeSecurityAudit env st = Inl SandboxUnavailable \<and>
      runAudit env st = Inl SandboxUnavailable"
    by (simp add: initializeSecurityAudit_def runAudit_def)
  from scan[of st] init after route rec fin run up down show ?thesis by blast
qed

theorem every_stage_appends_a_message_witness:
  "upd_auditMessages (fst (scanCodeChanges failingEnv mainState)) \<noteq> [] \<and>
   upd_auditMessages (generateSecurityRecommendations failingEnv mainState) \<noteq> [] \<and>
   upd_auditMessages (finalizeSecurityReport failingEnv mainState) \<noteq> [] \<and>
   runAudit failingEnv mainState \<noteq> Inl MissingLastMessage \<and>
   proceedToRecommendationsOrFinalize
     (applyUpdate
        (applyUpdate mainState
           \<lparr>upd_auditMessages = createSecurityAuditStartedMessage,
            upd_baseBranchName = Some (js ''main''),
            upd_changedFiles = Some (js ''Failed to get changed files.''),
            upd_scannedFiles = Some [],
            upd_securityReport = None\<rparr>)
        (fst (scanCodeChanges failingEnv
           (applyUpdate mainState
              \<lparr>upd_auditMessages = createSecurityAuditStartedMessage,
               upd_baseBranchName = Some (js ''main''),
               upd_changedFiles = Some (js ''Failed to get changed files.''),
               upd_scannedFiles = Some [],
               upd_securityReport = None\<rparr>))))
     \<noteq> Inl MissingLastMessage"
  using every_stage_appends_a_message
          [of failingEnv mainState
              "\<lparr>upd_auditMessages = createSecurityAuditStartedMessage,
                upd_baseBranchName = Some (js ''main''),
                upd_changedFiles = Some (js ''Failed to get changed files.''),
                upd_scannedFiles = Some [],
                upd_securityReport = None\<rparr>"]
        initialize_failingEnv
  by blast

section \<open>Audit pipeline: the run with no changed file\<close>





end
